theory Spec2Isabelle
  imports Complex_Main "HOL-Library.Multiset"
begin

section \<open>JavaScript numbers\<close>

text \<open>
  A JavaScript \<^verbatim>\<open>number\<close> is a finite value, one of the two infinities, or NaN.
  Finite values are taken as exact reals: the rounding, overflow and underflow of IEEE
  doubles and the sign of zero are outside this development. What is kept is every case
  in which an operator of \<^verbatim>\<open>server.ts\<close> leaves the finite numbers: \<open>0 / 0\<close>,
  \<open>x / 0\<close>, arithmetic on \<^verbatim>\<open>undefined\<close>, and the propagation of NaN. The claims
  proved below are therefore limited to what does not depend on the value of a finite
  result: which operations a call performs, when a result is NaN, and the equality of
  two results computed by the same operations. The examples use components \<open>0\<close>, \<open>1\<close>
  and \<open>-1\<close> and small integers, on which doubles are exact.
\<close>

datatype number = Num real | PosInfinity | NegInfinity | NaN

definition signedInfinity :: "bool \<Rightarrow> number" where
  "signedInfinity neg = (if neg then NegInfinity else PosInfinity)"

text \<open>The operator \<^verbatim>\<open>+\<close> on numbers.\<close>

fun jsadd :: "number \<Rightarrow> number \<Rightarrow> number" where
  "jsadd NaN y = NaN"
| "jsadd (Num x) NaN = NaN"
| "jsadd (Num x) (Num y) = Num (x + y)"
| "jsadd (Num x) PosInfinity = PosInfinity"
| "jsadd (Num x) NegInfinity = NegInfinity"
| "jsadd PosInfinity NaN = NaN"
| "jsadd PosInfinity NegInfinity = NaN"
| "jsadd PosInfinity (Num y) = PosInfinity"
| "jsadd PosInfinity PosInfinity = PosInfinity"
| "jsadd NegInfinity NaN = NaN"
| "jsadd NegInfinity PosInfinity = NaN"
| "jsadd NegInfinity (Num y) = NegInfinity"
| "jsadd NegInfinity NegInfinity = NegInfinity"

text \<open>Unary minus and the operator \<^verbatim>\<open>-\<close>.\<close>

fun jsneg :: "number \<Rightarrow> number" where
  "jsneg (Num x) = Num (- x)"
| "jsneg PosInfinity = NegInfinity"
| "jsneg NegInfinity = PosInfinity"
| "jsneg NaN = NaN"

definition jssub :: "number \<Rightarrow> number \<Rightarrow> number" where
  "jssub x y = jsadd x (jsneg y)"

text \<open>The operator \<^verbatim>\<open>*\<close>: an infinity times zero is NaN.\<close>

fun jsmul :: "number \<Rightarrow> number \<Rightarrow> number" where
  "jsmul NaN y = NaN"
| "jsmul (Num x) NaN = NaN"
| "jsmul PosInfinity NaN = NaN"
| "jsmul NegInfinity NaN = NaN"
| "jsmul (Num x) (Num y) = Num (x * y)"
| "jsmul (Num x) PosInfinity = (if x = 0 then NaN else signedInfinity (x < 0))"
| "jsmul (Num x) NegInfinity = (if x = 0 then NaN else signedInfinity (\<not> x < 0))"
| "jsmul PosInfinity (Num y) = (if y = 0 then NaN else signedInfinity (y < 0))"
| "jsmul NegInfinity (Num y) = (if y = 0 then NaN else signedInfinity (\<not> y < 0))"
| "jsmul PosInfinity PosInfinity = PosInfinity"
| "jsmul PosInfinity NegInfinity = NegInfinity"
| "jsmul NegInfinity PosInfinity = NegInfinity"
| "jsmul NegInfinity NegInfinity = PosInfinity"

text \<open>
  The operator \<^verbatim>\<open>/\<close>. It never throws: \<open>0 / 0\<close> is NaN and any other finite value
  over zero is an infinity (the zero divisors that \<open>cosineSimilarity\<close> produces are
  results of \<^verbatim>\<open>Math.sqrt\<close> on a sum started at \<open>+0\<close>, so they are \<open>+0\<close>).
\<close>

fun jsdiv :: "number \<Rightarrow> number \<Rightarrow> number" where
  "jsdiv NaN y = NaN"
| "jsdiv (Num x) NaN = NaN"
| "jsdiv PosInfinity NaN = NaN"
| "jsdiv NegInfinity NaN = NaN"
| "jsdiv (Num x) (Num y) =
     (if y \<noteq> 0 then Num (x / y) else if x = 0 then NaN else signedInfinity (x < 0))"
| "jsdiv (Num x) PosInfinity = Num 0"
| "jsdiv (Num x) NegInfinity = Num 0"
| "jsdiv PosInfinity (Num y) = signedInfinity (y < 0)"
| "jsdiv NegInfinity (Num y) = signedInfinity (\<not> y < 0)"
| "jsdiv PosInfinity PosInfinity = NaN"
| "jsdiv PosInfinity NegInfinity = NaN"
| "jsdiv NegInfinity PosInfinity = NaN"
| "jsdiv NegInfinity NegInfinity = NaN"

text \<open>\<^verbatim>\<open>Math.sqrt\<close> and \<^verbatim>\<open>Math.abs\<close>.\<close>

fun jssqrt :: "number \<Rightarrow> number" where
  "jssqrt (Num x) = (if x < 0 then NaN else Num (sqrt x))"
| "jssqrt PosInfinity = PosInfinity"
| "jssqrt NegInfinity = NaN"
| "jssqrt NaN = NaN"

fun jsabs :: "number \<Rightarrow> number" where
  "jsabs (Num x) = Num \<bar>x\<bar>"
| "jsabs PosInfinity = PosInfinity"
| "jsabs NegInfinity = PosInfinity"
| "jsabs NaN = NaN"

text \<open>The comparisons \<^verbatim>\<open>>\<close> and \<^verbatim>\<open><=\<close>: false as soon as an operand is NaN.\<close>

fun jsgt :: "number \<Rightarrow> number \<Rightarrow> bool" where
  "jsgt NaN y = False"
| "jsgt (Num x) NaN = False"
| "jsgt PosInfinity NaN = False"
| "jsgt NegInfinity NaN = False"
| "jsgt (Num x) (Num y) = (x > y)"
| "jsgt (Num x) PosInfinity = False"
| "jsgt (Num x) NegInfinity = True"
| "jsgt PosInfinity (Num y) = True"
| "jsgt PosInfinity PosInfinity = False"
| "jsgt PosInfinity NegInfinity = True"
| "jsgt NegInfinity y = False"

definition jsle :: "number \<Rightarrow> number \<Rightarrow> bool" where
  "jsle x y = (x \<noteq> NaN \<and> y \<noteq> NaN \<and> \<not> jsgt x y)"

definition jsge :: "number \<Rightarrow> number \<Rightarrow> bool" where
  "jsge x y = (x \<noteq> NaN \<and> y \<noteq> NaN \<and> \<not> jsgt y x)"

section \<open>The similarity scorer\<close>

text \<open>
  An embedding is what the embeddings endpoint returns in its JSON body: a list of
  finite numbers. Reading an array past its end yields \<^verbatim>\<open>undefined\<close>, which the
  arithmetic operators convert to NaN.
\<close>

definition elementAt :: "real list \<Rightarrow> nat \<Rightarrow> number" where
  "elementAt xs i = (if i < length xs then Num (xs ! i) else NaN)"

text \<open>
  The loop of \<open>cosineSimilarity\<close>: \<^verbatim>\<open>for (let i = 0; i < a.length; i++)\<close>, carrying
  \<open>dot\<close>, \<open>magA\<close> and \<open>magB\<close>. Only the length of \<open>a\<close> bounds it.
\<close>

function cosineLoop ::
  "real list \<Rightarrow> real list \<Rightarrow> nat \<Rightarrow> number \<times> number \<times> number \<Rightarrow> number \<times> number \<times> number" where
  "cosineLoop a b i (dot, magA, magB) =
     (if i < length a
      then cosineLoop a b (i + 1)
             (jsadd dot (jsmul (elementAt a i) (elementAt b i)),
              jsadd magA (jsmul (elementAt a i) (elementAt a i)),
              jsadd magB (jsmul (elementAt b i) (elementAt b i)))
      else (dot, magA, magB))"
  by pat_completeness auto
termination
  by (relation "measure (\<lambda>(a, b, i, acc). length a - i)") auto

declare cosineLoop.simps [simp del]

definition cosineSimilarity :: "real list \<Rightarrow> real list \<Rightarrow> number" where
  "cosineSimilarity a b =
     (case cosineLoop a b 0 (Num 0, Num 0, Num 0) of
        (dot, magA, magB) \<Rightarrow> jsdiv dot (jsmul (jssqrt magA) (jssqrt magB)))"

text \<open>
  The comparison the specification's tolerance test makes:
  \<^verbatim>\<open>Math.abs(x - y) <= eps\<close>.
\<close>

definition withinTolerance :: "real \<Rightarrow> number \<Rightarrow> number \<Rightarrow> bool" where
  "withinTolerance eps x y = jsle (jsabs (jssub x y)) (Num eps)"

section \<open>The retriever\<close>

datatype error = Error string

record document =
  content :: string
  embedding :: "real list"

record scored =
  content :: string
  score :: number

text \<open>
  \<^verbatim>\<open>Array.prototype.sort\<close> with a comparator. A comparator result that is NaN counts
  as \<open>0\<close>; a positive result puts the first argument after the second. The sort is
  stable, so it is rendered as the insertion of each element, from the last to the
  first, in front of the first element it does not have to follow. For a consistent
  comparator every stable sort gives this result; for an inconsistent one (a NaN score
  among other scores) the order an engine produces is its own.
\<close>

definition sortCompare :: "('a \<Rightarrow> 'a \<Rightarrow> number) \<Rightarrow> 'a \<Rightarrow> 'a \<Rightarrow> number" where
  "sortCompare comparefn x y = (let v = comparefn x y in if v = NaN then Num 0 else v)"

fun insertSorted :: "('a \<Rightarrow> 'a \<Rightarrow> number) \<Rightarrow> 'a \<Rightarrow> 'a list \<Rightarrow> 'a list" where
  "insertSorted comparefn x [] = [x]"
| "insertSorted comparefn x (y # ys) =
     (if jsgt (sortCompare comparefn x y) (Num 0)
      then y # insertSorted comparefn x ys
      else x # y # ys)"

definition arraySort :: "('a \<Rightarrow> 'a \<Rightarrow> number) \<Rightarrow> 'a list \<Rightarrow> 'a list" where
  "arraySort comparefn xs = foldr (insertSorted comparefn) xs []"

text \<open>\<^verbatim>\<open>Array.prototype.join\<close> on strings.\<close>

fun join :: "string \<Rightarrow> string list \<Rightarrow> string" where
  "join sep [] = []"
| "join sep [x] = x"
| "join sep (x # y # ys) = x @ sep @ join sep (y # ys)"

definition newline :: string where
  "newline = [CHR 0x0A]"

text \<open>The comparator of \<open>retrieveContext\<close>: \<^verbatim>\<open>(a, b) => b.score - a.score\<close>.\<close>

definition byScoreDesc :: "scored \<Rightarrow> scored \<Rightarrow> number" where
  "byScoreDesc a b = jssub (score b) (score a)"

definition scoreDocuments :: "real list \<Rightarrow> document list \<Rightarrow> scored list" where
  "scoreDocuments queryEmbedding documents =
     map (\<lambda>doc. \<lparr>scored.content = document.content doc,
                 score = cosineSimilarity queryEmbedding (embedding doc)\<rparr>) documents"

definition rankDocuments :: "real list \<Rightarrow> document list \<Rightarrow> scored list" where
  "rankDocuments queryEmbedding documents =
     arraySort byScoreDesc (scoreDocuments queryEmbedding documents)"

text \<open>
  \<open>retrieveContext\<close> awaits \<open>embedText\<close>, an outbound call that either yields the
  embedding or rejects, and reads the module-level array \<open>documents\<close>. Both are
  arguments here; a rejection of \<open>embedText\<close> is not caught and becomes the rejection
  of \<open>retrieveContext\<close>.
\<close>

definition retrieveContext ::
  "(string \<Rightarrow> error + real list) \<Rightarrow> document list \<Rightarrow> string \<Rightarrow> error + string" where
  "retrieveContext embedText documents query =
     (case embedText query of
        Inl err \<Rightarrow> Inl err
      | Inr queryEmbedding \<Rightarrow>
          Inr (join newline
                 (map scored.content (take 2 (rankDocuments queryEmbedding documents)))))"

text \<open>
  What the specification asks of the ranking: each candidate's score is at least
  (\<^verbatim>\<open>>=\<close>) the score of every candidate after it.
\<close>

definition descending :: "scored list \<Rightarrow> bool" where
  "descending cs = sorted_wrt (\<lambda>c d. jsge (score c) (score d)) cs"

definition mkDocument :: "string \<Rightarrow> real list \<Rightarrow> document" where
  "mkDocument c e = \<lparr>document.content = c, embedding = e\<rparr>"

section \<open>The streaming relay\<close>

text \<open>
  A chunk of the completion stream, as far as the handler reads it:
  \<^verbatim>\<open>chunk.choices[0]?.delta?.content\<close>. The first choice may be missing, its delta may
  be missing, and the content may be a string, null or undefined (\<open>None\<close> for both).
\<close>

record delta =
  content :: "string option"

record choice =
  delta :: "delta option"

record chunk =
  choices :: "choice list"

definition token :: "chunk \<Rightarrow> string option" where
  "token c =
     (case choices c of
        [] \<Rightarrow> None
      | ch # _ \<Rightarrow> (case choice.delta ch of None \<Rightarrow> None | Some d \<Rightarrow> delta.content d))"

text \<open>The test \<^verbatim>\<open>if (token)\<close>: a string is truthy when it is not empty.\<close>

definition truthy :: "string option \<Rightarrow> bool" where
  "truthy t = (case t of None \<Rightarrow> False | Some s \<Rightarrow> s \<noteq> [])"

text \<open>
  What the handler does to the outside world, in order: the calls on the response
  object and the values passed to \<^verbatim>\<open>console.error\<close>.
\<close>

datatype res_event = SetHeader string string | Write string | End

record io =
  res :: "res_event list"
  console :: "error list"

definition resCall :: "res_event \<Rightarrow> io \<Rightarrow> io" where
  "resCall ev s = s\<lparr>res := res s @ [ev]\<rparr>"

text \<open>
  The completion stream is an async iterator: it yields finitely many chunks and then
  either finishes or throws. \<open>create\<close> itself may reject before any chunk.
\<close>

type_synonym stream = "chunk list \<times> error option"

fun forAwait :: "chunk list \<Rightarrow> io \<Rightarrow> io" where
  "forAwait [] s = s"
| "forAwait (c # cs) s =
     forAwait cs (if truthy (token c) then resCall (Write (the (token c))) s else s)"

text \<open>The body of the \<^verbatim>\<open>try\<close> block: \<open>Some err\<close> when it throws \<open>err\<close>.\<close>

definition tryBlock :: "error + stream \<Rightarrow> io \<Rightarrow> error option \<times> io" where
  "tryBlock created s0 =
     (let s1 = resCall (SetHeader ''Content-Type'' ''text/event-stream'') s0;
          s2 = resCall (SetHeader ''Cache-Control'' ''no-cache'') s1;
          s3 = resCall (SetHeader ''Connection'' ''keep-alive'') s2
      in case created of
           Inl err \<Rightarrow> (Some err, s3)
         | Inr (chunks, failure) \<Rightarrow>
             (let s4 = forAwait chunks s3
              in case failure of
                   Some err \<Rightarrow> (Some err, s4)
                 | None \<Rightarrow> (None, resCall End s4)))"

text \<open>The handler of \<^verbatim>\<open>/chat-stream\<close>: the \<^verbatim>\<open>try\<close> block and its \<^verbatim>\<open>catch\<close>.\<close>

definition chatStreamHandler :: "error + stream \<Rightarrow> io \<Rightarrow> io" where
  "chatStreamHandler created s0 =
     (case tryBlock created s0 of
        (None, s) \<Rightarrow> s
      | (Some err, s) \<Rightarrow> resCall End (s\<lparr>console := console s @ [err]\<rparr>))"

text \<open>
  For the statements: the text a chunk carries (empty when it carries none), the
  strings a log of response calls wrote, a response on which nothing has been called
  yet, the three header calls, and a chunk that carries a given text.
\<close>

definition chunkText :: "chunk \<Rightarrow> string" where
  "chunkText c = (case token c of None \<Rightarrow> [] | Some s \<Rightarrow> s)"

fun written :: "res_event list \<Rightarrow> string list" where
  "written [] = []"
| "written (Write s # evs) = s # written evs"
| "written (SetHeader k v # evs) = written evs"
| "written (End # evs) = written evs"

definition freshIO :: io where
  "freshIO = \<lparr>res = [], console = []\<rparr>"

definition streamHeaders :: "res_event list" where
  "streamHeaders = [SetHeader ''Content-Type'' ''text/event-stream'',
                    SetHeader ''Cache-Control'' ''no-cache'',
                    SetHeader ''Connection'' ''keep-alive'']"

definition textChunk :: "string option \<Rightarrow> chunk" where
  "textChunk t = \<lparr>choices = [\<lparr>choice.delta = Some \<lparr>delta.content = t\<rparr>\<rparr>]\<rparr>"

section \<open>Facts about the similarity scorer\<close>

lemma jsadd_NaN_right [simp]: "jsadd x NaN = NaN"
  by (cases x) simp_all

lemma jsmul_NaN_right [simp]: "jsmul x NaN = NaN"
  by (cases x) simp_all

lemma jsdiv_NaN_right [simp]: "jsdiv x NaN = NaN"
  by (cases x) simp_all

text \<open>While the index stays inside both arrays the three accumulators are finite sums.\<close>

lemma cosineLoop_within:
  "length a \<le> length b \<Longrightarrow> i \<le> length a \<Longrightarrow>
   cosineLoop a b i (Num d, Num p, Num q) =
     (Num (d + (\<Sum>j = i..<length a. a ! j * b ! j)),
      Num (p + (\<Sum>j = i..<length a. a ! j * a ! j)),
      Num (q + (\<Sum>j = i..<length a. b ! j * b ! j)))"
proof (induction "length a - i" arbitrary: i d p q)
  case 0
  then show ?case by (simp add: cosineLoop.simps)
next
  case (Suc n)
  from Suc.hyps(2) have lt: "i < length a" by simp
  with Suc.prems have ltb: "i < length b" by simp
  have n: "n = length a - (i + 1)" using Suc.hyps(2) by simp
  have le: "i + 1 \<le> length a" using lt by simp
  show ?case
    apply (subst cosineLoop.simps)
    using lt ltb Suc.hyps(1)[OF n Suc.prems(1) le]
    by (simp add: elementAt_def sum.atLeast_Suc_lessThan add.assoc)
qed

text \<open>Once \<open>dot\<close> is NaN it stays NaN.\<close>

lemma cosineLoop_NaN_stays: "fst (cosineLoop a b i (NaN, m, q)) = NaN"
proof (induction "length a - i" arbitrary: i m q)
  case 0
  then show ?case by (simp add: cosineLoop.simps)
next
  case (Suc n)
  then show ?case
    by (subst cosineLoop.simps) simp
qed

lemma cosineLoop_past_end:
  "length b < length a \<Longrightarrow> i \<le> length b \<Longrightarrow> fst (cosineLoop a b i (d, m, q)) = NaN"
proof (induction "length b - i" arbitrary: i d m q)
  case 0
  then have i: "i = length b" by simp
  with 0 have lt: "i < length a" by simp
  show ?case
    apply (subst cosineLoop.simps)
    using lt i by (simp add: elementAt_def cosineLoop_NaN_stays)
next
  case (Suc n)
  then have lt: "i < length b" "i < length a" by simp_all
  have n: "n = length b - (i + 1)" using Suc.hyps(2) by simp
  show ?case
    apply (subst cosineLoop.simps)
    using lt Suc.hyps(1)[OF n Suc.prems(1)] by simp
qed

lemma cosineSimilarity_longer: "length b < length a \<Longrightarrow> cosineSimilarity a b = NaN"
  using cosineLoop_past_end[of b a 0 "Num 0" "Num 0" "Num 0"]
  by (auto simp: cosineSimilarity_def split: prod.splits)

lemma sum_squares_nonneg: "0 \<le> (\<Sum>j<n. (f j :: real) * f j)"
  by (rule sum_nonneg) simp

lemma sum_squares_zero_iff:
  "(\<Sum>j<(n::nat). (f j :: real) * f j) = 0 \<longleftrightarrow> (\<forall>j<n. f j = 0)"
  by (auto simp: sum_nonneg_eq_0_iff)

lemma cosineSimilarity_sums:
  assumes "length a \<le> length b"
  shows "cosineSimilarity a b =
     jsdiv (Num (\<Sum>j<length a. a ! j * b ! j))
       (Num (sqrt (\<Sum>j<length a. a ! j * a ! j) * sqrt (\<Sum>j<length a. b ! j * b ! j)))"
proof -
  have loop: "cosineLoop a b 0 (Num 0, Num 0, Num 0) =
     (Num (\<Sum>j<length a. a ! j * b ! j),
      Num (\<Sum>j<length a. a ! j * a ! j),
      Num (\<Sum>j<length a. b ! j * b ! j))"
    using cosineLoop_within[OF assms, of 0 0 0 0] by (simp add: atLeast0LessThan)
  have "\<not> (\<Sum>j<length a. a ! j * a ! j) < 0" "\<not> (\<Sum>j<length a. b ! j * b ! j) < 0"
    using sum_squares_nonneg[of "\<lambda>j. a ! j" "length a"] sum_squares_nonneg[of "\<lambda>j. b ! j" "length a"]
    by simp_all
  then show ?thesis
    unfolding cosineSimilarity_def loop by (simp del: jsdiv.simps)
qed

text \<open>The sum of squares of a vector is zero exactly when all its components are zero.\<close>

lemma zero_vector_sum: "(\<forall>x\<in>set a. x = (0::real)) \<longleftrightarrow> (\<Sum>j<length a. a ! j * a ! j) = 0"
  by (simp add: sum_squares_zero_iff all_set_conv_all_nth)

lemma cosineSimilarity_zero_magnitude:
  assumes len: "length a = length b"
    and zero: "(\<forall>x\<in>set a. x = 0) \<or> (\<forall>x\<in>set b. x = 0)"
  shows "cosineSimilarity a b = NaN"
proof -
  let ?D = "\<Sum>j<length a. a ! j * b ! j"
  let ?A = "\<Sum>j<length a. a ! j * a ! j"
  let ?B = "\<Sum>j<length a. b ! j * b ! j"
  have dot: "?D = 0"
  proof (rule sum.neutral)
    show "\<forall>j\<in>{..<length a}. a ! j * b ! j = 0"
      using zero len by (auto simp: all_set_conv_all_nth)
  qed
  have "?A = 0 \<or> ?B = 0"
    using zero zero_vector_sum[of a] zero_vector_sum[of b] by (simp add: len)
  then have den: "sqrt ?A * sqrt ?B = 0"
    by auto
  have "cosineSimilarity a b = jsdiv (Num ?D) (Num (sqrt ?A * sqrt ?B))"
    by (rule cosineSimilarity_sums) (simp add: len)
  also have "\<dots> = jsdiv (Num 0) (Num 0)"
    by (simp only: dot den)
  finally show ?thesis
    by simp
qed

section \<open>Claims about the similarity scorer\<close>

text \<open>
  C1 (as the code has it). \<open>cosineSimilarity\<close> has no length check and raises nothing.
  For vectors of unequal length it returns a number: when \<open>a\<close> is the shorter one, the
  similarity of \<open>a\<close> and the first \<open>length a\<close> components of \<open>b\<close> (the rest of \<open>b\<close>
  is never read); when \<open>a\<close> is the longer one, NaN, because the reads of \<open>b\<close> past its
  end are \<^verbatim>\<open>undefined\<close>.
\<close>

theorem cosineSimilarity_unequal_lengths:
  "length a \<noteq> length b \<Longrightarrow>
   cosineSimilarity a b =
     (if length a < length b then cosineSimilarity a (take (length a) b) else NaN)"
proof (cases "length a < length b")
  case True
  have "cosineSimilarity a (take (length a) b) =
      jsdiv (Num (\<Sum>j<length a. a ! j * take (length a) b ! j))
        (Num (sqrt (\<Sum>j<length a. a ! j * a ! j) *
              sqrt (\<Sum>j<length a. take (length a) b ! j * take (length a) b ! j)))"
    using True by (intro cosineSimilarity_sums) simp
  also have "\<dots> = jsdiv (Num (\<Sum>j<length a. a ! j * b ! j))
        (Num (sqrt (\<Sum>j<length a. a ! j * a ! j) * sqrt (\<Sum>j<length a. b ! j * b ! j)))"
    by simp
  also have "\<dots> = cosineSimilarity a b"
    using True by (intro cosineSimilarity_sums[symmetric]) simp
  finally show ?thesis
    using True by simp
next
  case False
  assume "length a \<noteq> length b"
  with False have "length b < length a" by simp
  then show ?thesis
    using False by (simp add: cosineSimilarity_longer)
qed

text \<open>The theorem of C1 at \<open>a = [1]\<close>, \<open>b = [1, 5]\<close>.\<close>

theorem cosineSimilarity_unequal_lengths_witness:
  "length [1::real] \<noteq> length [1::real, 5] \<and> cosineSimilarity [1] [1, 5] = cosineSimilarity [1] [1]"
  using cosineSimilarity_unequal_lengths[of "[1]" "[1, 5]"] by simp

text \<open>
  C1 as stated fails: on \<open>[1]\<close> and \<open>[1, 5]\<close> the call returns \<open>1\<close>, the similarity of
  \<open>[1]\<close> and \<open>[1]\<close>, and on \<open>[1, 5]\<close> and \<open>[1]\<close> it returns NaN; neither call raises.
\<close>

theorem cosineSimilarity_unequal_lengths_counterexample:
  "length [1::real] \<noteq> length [1::real, 5] \<and> cosineSimilarity [1] [1, 5] = Num 1
     \<and> cosineSimilarity [1, 5] [1] = NaN"
  by (simp add: cosineSimilarity_sums cosineSimilarity_longer)

text \<open>
  C3 (as the code has it). The division of \<open>cosineSimilarity\<close> is not guarded. For
  vectors of equal length of which at least one has only zero components, the dot
  product is \<open>0\<close> and so is one of the two square roots: the result is NaN, not \<open>0\<close>.
  So a score is not always a number in \<open>[-1, 1]\<close>. Nothing is stated here about the
  score of two vectors that both have a non-zero component: its value depends on the
  rounding and the range of doubles.
\<close>

theorem cosineSimilarity_zero_vector:
  "length a = length b \<Longrightarrow> (\<forall>x\<in>set a. x = 0) \<or> (\<forall>x\<in>set b. x = 0) \<Longrightarrow>
   cosineSimilarity a b = NaN \<and> cosineSimilarity a b \<noteq> Num 0"
  using cosineSimilarity_zero_magnitude[of a b] by simp

text \<open>The theorem of C3 with a zero vector as the second argument, then as the first.\<close>

theorem cosineSimilarity_zero_vector_witness:
  "length [1::real, 2] = length [0::real, 0] \<and> cosineSimilarity [1, 2] [0, 0] = NaN \<and>
   length [0::real] = length [5::real] \<and> cosineSimilarity [0] [5] = NaN"
  using cosineSimilarity_zero_vector[of "[1, 2]" "[0, 0]"]
    cosineSimilarity_zero_vector[of "[0]" "[5]"]
  by simp

text \<open>C3 as stated fails: the score of \<open>[0, 0]\<close> against \<open>[1, 0]\<close> is NaN, not \<open>0\<close>.\<close>

theorem cosineSimilarity_zero_counterexample:
  "length [0::real, 0] = length [1::real, 0] \<and> cosineSimilarity [0, 0] [1, 0] = NaN
   \<and> cosineSimilarity [0, 0] [1, 0] \<noteq> Num 0"
  by (simp add: cosineSimilarity_sums lessThan_Suc numeral_2_eq_2)

text \<open>
  Swapping the arguments swaps \<open>magA\<close> with \<open>magB\<close> and the factors of each product;
  nothing else changes.
\<close>

lemma cosineSimilarity_commute:
  assumes "length a = length b"
  shows "cosineSimilarity a b = cosineSimilarity b a"
proof -
  have "cosineSimilarity a b =
      jsdiv (Num (\<Sum>j<length a. a ! j * b ! j))
        (Num (sqrt (\<Sum>j<length a. a ! j * a ! j) * sqrt (\<Sum>j<length a. b ! j * b ! j)))"
    by (rule cosineSimilarity_sums) (simp add: assms)
  also have "\<dots> =
      jsdiv (Num (\<Sum>j<length b. b ! j * a ! j))
        (Num (sqrt (\<Sum>j<length b. b ! j * b ! j) * sqrt (\<Sum>j<length b. a ! j * a ! j)))"
    by (simp only: assms mult.commute)
  also have "\<dots> = cosineSimilarity b a"
    by (rule cosineSimilarity_sums[symmetric]) (simp add: assms)
  finally show ?thesis .
qed

lemma withinTolerance_same: "0 \<le> eps \<Longrightarrow> withinTolerance eps (Num r) (Num r)"
  by (simp add: withinTolerance_def jsle_def jssub_def)

text \<open>
  C7 (as the code has it). For vectors of equal length \<open>cosineSimilarity a b\<close> and
  \<open>cosineSimilarity b a\<close> are the same value: the two calls do the same operations
  with the factors of each product exchanged. Whenever that value is a finite number,
  the two results pass the tolerance test \<^verbatim>\<open>Math.abs(x - y) <= eps\<close> for every
  \<open>eps \<ge> 0\<close>. When it is NaN, as for a zero vector, they pass no comparison. Which
  vectors give a finite number is not stated here: beyond the zero vectors it depends
  on the range of doubles.
\<close>

theorem cosineSimilarity_symmetric:
  "length a = length b \<Longrightarrow>
   cosineSimilarity a b = cosineSimilarity b a \<and>
   (cosineSimilarity a b = Num r \<and> 0 \<le> eps \<longrightarrow>
      withinTolerance eps (cosineSimilarity a b) (cosineSimilarity b a))"
proof (intro conjI impI)
  assume len: "length a = length b"
  then show eq: "cosineSimilarity a b = cosineSimilarity b a"
    by (rule cosineSimilarity_commute)
  assume fin: "cosineSimilarity a b = Num r \<and> 0 \<le> eps"
  then show "withinTolerance eps (cosineSimilarity a b) (cosineSimilarity b a)"
    using eq[symmetric] by (simp add: withinTolerance_same)
qed

text \<open>
  The theorem of C7 at \<open>[1, 0]\<close> and \<open>[0, 1]\<close>, where the result is the number \<open>0\<close>,
  with the tolerance \<open>1e-9\<close>.
\<close>

theorem cosineSimilarity_symmetric_witness:
  "length [1::real, 0] = length [0::real, 1] \<and>
   cosineSimilarity [1, 0] [0, 1] = Num 0 \<and> (0::real) \<le> 1 / 10 ^ 9 \<and>
   cosineSimilarity [1, 0] [0, 1] = cosineSimilarity [0, 1] [1, 0] \<and>
   withinTolerance (1 / 10 ^ 9) (cosineSimilarity [1, 0] [0, 1]) (cosineSimilarity [0, 1] [1, 0])"
proof -
  have len: "length [1::real, 0] = length [0::real, 1]"
    by simp
  have val: "cosineSimilarity [1, 0] [0, 1] = Num 0"
    by (simp add: cosineSimilarity_sums lessThan_Suc numeral_2_eq_2)
  show ?thesis
    using cosineSimilarity_symmetric[OF len, of 0 "1 / 10 ^ 9"] val by auto
qed

text \<open>
  C7 as stated fails on \<open>[0]\<close> and \<open>[1]\<close>: both orders give NaN, and NaN is not within
  any tolerance of NaN.
\<close>

theorem cosineSimilarity_symmetric_counterexample:
  "length [0::real] = length [1::real] \<and>
   cosineSimilarity [0] [1] = NaN \<and> cosineSimilarity [1] [0] = NaN \<and>
   \<not> withinTolerance (1 / 10 ^ 9) (cosineSimilarity [0] [1]) (cosineSimilarity [1] [0])"
  by (simp add: cosineSimilarity_sums withinTolerance_def jsle_def jssub_def)

section \<open>Facts about the sort\<close>

lemma mset_insertSorted: "mset (insertSorted f x ys) = add_mset x (mset ys)"
  by (induction ys) simp_all

lemma mset_arraySort: "mset (arraySort f xs) = mset xs"
  by (induction xs) (simp_all add: arraySort_def mset_insertSorted)

lemma set_arraySort: "set (arraySort f xs) = set xs"
  using mset_arraySort[of f xs] by (metis set_mset_mset)

lemma arraySort_short: "length xs < 2 \<Longrightarrow> arraySort f xs = xs"
proof (cases xs)
  case Nil
  then show ?thesis by (simp add: arraySort_def)
next
  case (Cons x ys)
  assume "length xs < 2"
  with Cons have "ys = []" by simp
  with Cons show ?thesis by (simp add: arraySort_def)
qed

lemma jsgt_irrefl: "\<not> jsgt v v"
  by (cases v) simp_all

lemma byScoreDesc_same: "score x = score y \<Longrightarrow> \<not> jsgt (sortCompare byScoreDesc x y) (Num 0)"
  by (cases "score y") (simp_all add: sortCompare_def byScoreDesc_def jssub_def Let_def)

lemma filter_insertSorted_other:
  "\<not> P x \<Longrightarrow> filter P (insertSorted f x ys) = filter P ys"
  by (induction ys) simp_all

lemma filter_insertSorted_same:
  "filter (\<lambda>c. score c = score x) (insertSorted byScoreDesc x ys) =
     x # filter (\<lambda>c. score c = score x) ys"
proof (induction ys)
  case Nil
  show ?case by simp
next
  case (Cons y ys)
  show ?case
  proof (cases "jsgt (sortCompare byScoreDesc x y) (Num 0)")
    case True
    then have "score y \<noteq> score x"
      using byScoreDesc_same[of x y] by auto
    then show ?thesis
      using True Cons.IH by simp
  next
    case False
    then show ?thesis by simp
  qed
qed

lemma arraySort_stable:
  "filter (\<lambda>c. score c = k) (arraySort byScoreDesc xs) = filter (\<lambda>c. score c = k) xs"
proof (induction xs)
  case Nil
  show ?case by (simp add: arraySort_def)
next
  case (Cons x xs)
  have step: "arraySort byScoreDesc (x # xs) = insertSorted byScoreDesc x (arraySort byScoreDesc xs)"
    by (simp add: arraySort_def)
  show ?case
  proof (cases "score x = k")
    case True
    then show ?thesis
      using filter_insertSorted_same[of x "arraySort byScoreDesc xs"] Cons.IH
      by (simp add: step)
  next
    case False
    then show ?thesis
      using Cons.IH by (simp add: step filter_insertSorted_other)
  qed
qed

lemma byScoreDesc_positive_iff:
  "score x \<noteq> NaN \<Longrightarrow> score y \<noteq> NaN \<Longrightarrow>
   jsgt (sortCompare byScoreDesc x y) (Num 0) = jsgt (score y) (score x)"
  by (cases "score x"; cases "score y")
     (simp_all add: sortCompare_def byScoreDesc_def jssub_def Let_def)

lemma jsge_trans: "jsge a b \<Longrightarrow> jsge b c \<Longrightarrow> jsge a c"
  by (cases a; cases b; cases c) (simp_all add: jsge_def)

lemma jsgt_imp_jsge: "jsgt a b \<Longrightarrow> jsge a b"
  by (cases a; cases b) (simp_all add: jsge_def)

lemma descending_insertSorted:
  assumes "score x \<noteq> NaN" "\<forall>c\<in>set ys. score c \<noteq> NaN" "descending ys"
  shows "descending (insertSorted byScoreDesc x ys)"
  using assms
proof (induction ys)
  case Nil
  show ?case by (simp add: descending_def)
next
  case (Cons y ys)
  have y: "score y \<noteq> NaN" using Cons.prems(2) by simp
  have tail: "descending ys" "\<forall>c\<in>set ys. jsge (score y) (score c)"
    using Cons.prems(3) by (simp_all add: descending_def)
  show ?case
  proof (cases "jsgt (score y) (score x)")
    case True
    have "descending (insertSorted byScoreDesc x ys)"
      using Cons.IH Cons.prems tail by simp
    moreover have "\<forall>c\<in>set (insertSorted byScoreDesc x ys). jsge (score y) (score c)"
      using tail(2) True jsgt_imp_jsge
      by (metis mset_insertSorted set_mset_add_mset_insert set_mset_mset insert_iff)
    ultimately show ?thesis
      using True Cons.prems(1) y by (simp add: byScoreDesc_positive_iff descending_def)
  next
    case False
    then have xy: "jsge (score x) (score y)"
      using Cons.prems(1) y by (simp add: jsge_def)
    then have "\<forall>c\<in>set ys. jsge (score x) (score c)"
      using tail(2) jsge_trans by blast
    then show ?thesis
      using False xy Cons.prems(1,3) y by (simp add: byScoreDesc_positive_iff descending_def)
  qed
qed

lemma descending_arraySort:
  "\<forall>c\<in>set xs. score c \<noteq> NaN \<Longrightarrow> descending (arraySort byScoreDesc xs)"
proof (induction xs)
  case Nil
  show ?case by (simp add: arraySort_def descending_def)
next
  case (Cons x xs)
  have step: "arraySort byScoreDesc (x # xs) = insertSorted byScoreDesc x (arraySort byScoreDesc xs)"
    by (simp add: arraySort_def)
  show ?case
    unfolding step
    using Cons by (intro descending_insertSorted) (simp_all add: set_arraySort)
qed

lemma retrieveContext_embedded:
  "embedText query = Inr q \<Longrightarrow>
   retrieveContext embedText documents query =
     Inr (join newline (map scored.content (take 2 (rankDocuments q documents))))"
  by (simp add: retrieveContext_def)

section \<open>Claims about the retriever\<close>

text \<open>
  C2 (as the code has it). When the embedding call for the query returns a vector and
  no similarity score is NaN, \<open>retrieveContext\<close> computes one score per stored document
  (same contents, same order), ranks the candidates by score descending, equal scores
  keeping their store order (the ranking is a permutation of the candidates, and for
  each score the candidates with that score appear as in the store), takes the first
  two and returns their contents joined by a newline.
\<close>

theorem retrieveContext_ranked:
  assumes emb: "embedText query = Inr q"
    and num: "\<forall>doc\<in>set documents. cosineSimilarity q (embedding doc) \<noteq> NaN"
  shows "map score (scoreDocuments q documents) =
           map (\<lambda>doc. cosineSimilarity q (embedding doc)) documents \<and>
         map scored.content (scoreDocuments q documents) = map document.content documents \<and>
         mset (rankDocuments q documents) = mset (scoreDocuments q documents) \<and>
         descending (rankDocuments q documents) \<and>
         (\<forall>k. filter (\<lambda>c. score c = k) (rankDocuments q documents) =
              filter (\<lambda>c. score c = k) (scoreDocuments q documents)) \<and>
         retrieveContext embedText documents query =
           Inr (join newline (map scored.content (take 2 (rankDocuments q documents))))"
proof -
  have "\<forall>c\<in>set (scoreDocuments q documents). score c \<noteq> NaN"
    using num by (auto simp: scoreDocuments_def)
  then have "descending (rankDocuments q documents)"
    unfolding rankDocuments_def by (rule descending_arraySort)
  then show ?thesis
    using emb
    by (simp add: retrieveContext_embedded rankDocuments_def mset_arraySort arraySort_stable)
       (simp add: scoreDocuments_def comp_def)
qed

text \<open>Scores against the query vector \<open>[1, 0]\<close>, for the examples.\<close>

lemma sim_10_01: "cosineSimilarity [1, 0] [0, 1] = Num 0"
  by (simp add: cosineSimilarity_sums lessThan_Suc numeral_2_eq_2)
lemma sim_10_10: "cosineSimilarity [1, 0] [1, 0] = Num 1"
  by (simp add: cosineSimilarity_sums lessThan_Suc numeral_2_eq_2)
lemma sim_10_m10: "cosineSimilarity [1, 0] [- 1, 0] = Num (- 1)"
  by (simp add: cosineSimilarity_sums lessThan_Suc numeral_2_eq_2)
lemma sim_10_00: "cosineSimilarity [1, 0] [0, 0] = NaN"
  by (simp add: cosineSimilarity_sums lessThan_Suc numeral_2_eq_2)

lemmas sort_eval = rankDocuments_def scoreDocuments_def arraySort_def sortCompare_def
  byScoreDesc_def jssub_def mkDocument_def newline_def Let_def

text \<open>
  The theorem of C2 on four documents with the scores \<open>0\<close>, \<open>1\<close>, \<open>-1\<close>, \<open>1\<close>: the two
  documents of score \<open>1\<close> are returned, the earlier one first.
\<close>

theorem retrieveContext_ranked_witness:
  "(\<lambda>s. Inr [1, 0] :: error + real list) ''q'' = Inr [1, 0] \<and>
   cosineSimilarity [1, 0] [0, 1] \<noteq> NaN \<and> cosineSimilarity [1, 0] [1, 0] \<noteq> NaN \<and>
   cosineSimilarity [1, 0] [- 1, 0] \<noteq> NaN \<and>
   retrieveContext (\<lambda>s. Inr [1, 0])
     [mkDocument ''A'' [0, 1], mkDocument ''B'' [1, 0], mkDocument ''C'' [- 1, 0],
      mkDocument ''D'' [1, 0]] ''q'' = Inr (''B'' @ newline @ ''D'')"
  using retrieveContext_ranked[of "\<lambda>s. Inr [1, 0]" "''q''" "[1, 0]"
      "[mkDocument ''A'' [0, 1], mkDocument ''B'' [1, 0], mkDocument ''C'' [- 1, 0],
        mkDocument ''D'' [1, 0]]"]
  by (simp add: sort_eval sim_10_01 sim_10_10 sim_10_m10)

text \<open>
  C2 as stated fails on a store whose second document has a zero embedding. Its score
  is NaN, the comparator returns NaN against it, which the sort takes as \<open>0\<close>, and no
  element moves: the ranking \<open>A, N, B\<close> has the scores \<open>0\<close>, NaN, \<open>1\<close>, is not
  descending, and the context is \<open>A\<close> and \<open>N\<close> although \<open>B\<close> has the highest score.
\<close>

theorem retrieveContext_ranked_counterexample:
  "[mkDocument ''A'' [0, 1], mkDocument ''N'' [0, 0], mkDocument ''B'' [1, 0]] \<noteq> [] \<and>
   map score (scoreDocuments [1, 0]
     [mkDocument ''A'' [0, 1], mkDocument ''N'' [0, 0], mkDocument ''B'' [1, 0]]) =
     [Num 0, NaN, Num 1] \<and>
   map scored.content (rankDocuments [1, 0]
     [mkDocument ''A'' [0, 1], mkDocument ''N'' [0, 0], mkDocument ''B'' [1, 0]]) =
     [''A'', ''N'', ''B''] \<and>
   \<not> descending (rankDocuments [1, 0]
     [mkDocument ''A'' [0, 1], mkDocument ''N'' [0, 0], mkDocument ''B'' [1, 0]]) \<and>
   retrieveContext (\<lambda>s. Inr [1, 0])
     [mkDocument ''A'' [0, 1], mkDocument ''N'' [0, 0], mkDocument ''B'' [1, 0]] ''q'' =
     Inr (''A'' @ newline @ ''N'')"
  by (simp add: retrieveContext_def sort_eval sim_10_01 sim_10_10 sim_10_00 descending_def jsge_def)

text \<open>
  C5 (as the code has it). On an empty store \<open>retrieveContext\<close> still awaits the
  embedding of the query first. When that call returns, the result is the empty string;
  when it rejects, \<open>retrieveContext\<close> rejects with the same error. The empty store
  itself raises nothing.
\<close>

theorem retrieveContext_empty_store:
  "retrieveContext embedText [] query =
     (case embedText query of Inl err \<Rightarrow> Inl err | Inr q \<Rightarrow> Inr [])"
  by (simp add: retrieveContext_def rankDocuments_def scoreDocuments_def arraySort_def
      split: sum.splits)

text \<open>
  C5 as stated fails: with an empty store and an embedding call that rejects,
  \<open>retrieveContext\<close> rejects.
\<close>

theorem retrieveContext_empty_store_counterexample:
  "retrieveContext (\<lambda>s. Inl (Error ''embeddings request failed'')) [] ''hello'' =
     Inl (Error ''embeddings request failed'')"
  by (simp add: retrieveContext_def)

text \<open>
  C6. When the embedding call for the query returns a vector and the store holds fewer
  than two documents, \<open>retrieveContext\<close> returns the contents of all stored documents
  joined by a newline (the empty string for no document, the document's content for
  one).
\<close>

theorem retrieveContext_small_store:
  assumes "embedText query = Inr q" and "length documents < 2"
  shows "retrieveContext embedText documents query =
           Inr (join newline (map document.content documents))"
proof -
  have "rankDocuments q documents = scoreDocuments q documents"
    unfolding rankDocuments_def using assms(2)
    by (intro arraySort_short) (simp add: scoreDocuments_def)
  moreover have "take 2 (scoreDocuments q documents) = scoreDocuments q documents"
    using assms(2) by (simp add: scoreDocuments_def)
  moreover have "map scored.content (scoreDocuments q documents) = map document.content documents"
    by (simp add: scoreDocuments_def comp_def)
  ultimately show ?thesis
    using assms(1) by (simp add: retrieveContext_embedded)
qed

text \<open>The theorem of C6 on a store of one document.\<close>

theorem retrieveContext_small_store_witness:
  "(\<lambda>s. Inr [1, 0] :: error + real list) ''q'' = Inr [1, 0] \<and>
   length [mkDocument ''A'' [0, 1]] < 2 \<and>
   retrieveContext (\<lambda>s. Inr [1, 0]) [mkDocument ''A'' [0, 1]] ''q'' = Inr ''A''"
  using retrieveContext_small_store[of "\<lambda>s. Inr [1, 0]" "''q''" "[1, 0]" "[mkDocument ''A'' [0, 1]]"]
  by (simp add: mkDocument_def)

section \<open>Facts about the streaming relay\<close>

lemma written_append: "written (xs @ ys) = written xs @ written ys"
  by (induction xs rule: written.induct) simp_all

lemma written_map_Write: "written (map Write ws) = ws"
  by (induction ws) simp_all

lemma written_streamHeaders: "written streamHeaders = []"
  by (simp add: streamHeaders_def)

text \<open>The loop appends one \<open>Write\<close> per chunk that carries a non-empty text.\<close>

lemma forAwait_res:
  "forAwait cs s = s\<lparr>res := res s @ map Write (filter (\<lambda>w. w \<noteq> []) (map chunkText cs))\<rparr>"
proof (induction cs arbitrary: s)
  case Nil
  show ?case by simp
next
  case (Cons c cs)
  show ?case
    by (cases "token c") (simp_all add: Cons.IH truthy_def chunkText_def resCall_def)
qed

lemma concat_filter_nonempty: "concat (filter (\<lambda>w. w \<noteq> []) ws) = concat ws"
  by (induction ws) simp_all

lemma handler_log:
  "chatStreamHandler (Inr (chunks, failure)) freshIO =
     \<lparr>res = streamHeaders @ map Write (filter (\<lambda>w. w \<noteq> []) (map chunkText chunks)) @ [End],
      console = (case failure of None \<Rightarrow> [] | Some err \<Rightarrow> [err])\<rparr>"
  by (cases failure)
     (simp_all add: chatStreamHandler_def tryBlock_def forAwait_res resCall_def freshIO_def
        streamHeaders_def Let_def)

lemma handler_create_failed:
  "chatStreamHandler (Inl err) freshIO = \<lparr>res = streamHeaders @ [End], console = [err]\<rparr>"
  by (simp add: chatStreamHandler_def tryBlock_def resCall_def freshIO_def streamHeaders_def
      Let_def)

lemma chunkText_textChunk: "chunkText (textChunk t) = (case t of None \<Rightarrow> [] | Some s \<Rightarrow> s)"
  by (simp add: chunkText_def token_def textChunk_def)

section \<open>Claims about the streaming relay\<close>

text \<open>
  C4. For every finite sequence of chunks after which the completion stream finishes,
  the handler writes exactly the non-empty chunk texts, in arrival order; the
  concatenation of what it wrote is the concatenation of the chunk texts; and the
  response is ended exactly once, as the last call on it.
\<close>

theorem relay_forwards_in_order:
  "(let log = res (chatStreamHandler (Inr (chunks, None)) freshIO) in
      written log = filter (\<lambda>w. w \<noteq> []) (map chunkText chunks) \<and>
      concat (written log) = concat (map chunkText chunks) \<and>
      length (filter (\<lambda>ev. ev = End) log) = 1 \<and>
      last log = End)"
  by (simp add: handler_log Let_def written_append written_map_Write written_streamHeaders
      concat_filter_nonempty streamHeaders_def)

text \<open>The scenario of the specification: four chunks that spell \<open>The answer is 4.\<close>\<close>

theorem relay_forwards_in_order_scenario:
  "written (res (chatStreamHandler
      (Inr (map textChunk [Some ''The'', Some '' answer'', Some '' is'', Some '' 4.''], None))
      freshIO)) = [''The'', '' answer'', '' is'', '' 4.''] \<and>
   concat (written (res (chatStreamHandler
      (Inr (map textChunk [Some ''The'', Some '' answer'', Some '' is'', Some '' 4.''], None))
      freshIO))) = ''The answer is 4.'' \<and>
   last (res (chatStreamHandler
      (Inr (map textChunk [Some ''The'', Some '' answer'', Some '' is'', Some '' 4.''], None))
      freshIO)) = End"
  using relay_forwards_in_order
    [of "map textChunk [Some ''The'', Some '' answer'', Some '' is'', Some '' 4.'']"]
  by (simp add: Let_def chunkText_textChunk)

text \<open>
  C9. When the completion stream throws after any number of chunks, the \<^verbatim>\<open>try\<close> block
  throws, the \<^verbatim>\<open>catch\<close> passes the error to \<^verbatim>\<open>console.error\<close> and ends the
  response: the handler returns, the response holds the texts written before the
  failure and nothing else, and it is ended exactly once, last. The same holds when the
  request for the stream itself rejects, before any chunk.
\<close>

theorem relay_ends_on_failure:
  "fst (tryBlock (Inr (chunks, Some err)) freshIO) = Some err \<and>
   chatStreamHandler (Inr (chunks, Some err)) freshIO =
     \<lparr>res = streamHeaders @ map Write (filter (\<lambda>w. w \<noteq> []) (map chunkText chunks)) @ [End],
      console = [err]\<rparr> \<and>
   chatStreamHandler (Inl err) freshIO = \<lparr>res = streamHeaders @ [End], console = [err]\<rparr>"
proof (intro conjI)
  show "fst (tryBlock (Inr (chunks, Some err)) freshIO) = Some err"
    by (simp add: tryBlock_def Let_def)
  show "chatStreamHandler (Inr (chunks, Some err)) freshIO =
     \<lparr>res = streamHeaders @ map Write (filter (\<lambda>w. w \<noteq> []) (map chunkText chunks)) @ [End],
      console = [err]\<rparr>"
    by (simp add: handler_log)
  show "chatStreamHandler (Inl err) freshIO = \<lparr>res = streamHeaders @ [End], console = [err]\<rparr>"
    by (rule handler_create_failed)
qed

text \<open>
  C10. A chunk whose first choice is missing, or whose delta or content is missing or
  the empty string, leaves the response untouched; and every string the handler writes
  is non-empty.
\<close>

theorem relay_skips_empty:
  "(token c = None \<or> token c = Some [] \<longrightarrow> forAwait (c # cs) s = forAwait cs s) \<and>
   (\<forall>w\<in>set (written (res (chatStreamHandler created freshIO))). w \<noteq> [])"
proof (intro conjI impI)
  assume "token c = None \<or> token c = Some []"
  then show "forAwait (c # cs) s = forAwait cs s"
    by (auto simp: truthy_def)
next
  show "\<forall>w\<in>set (written (res (chatStreamHandler created freshIO))). w \<noteq> []"
  proof (cases created)
    case (Inl err)
    then show ?thesis
      by (simp add: handler_create_failed written_append written_streamHeaders)
  next
    case (Inr st)
    then show ?thesis
      by (cases st)
         (simp add: handler_log written_append written_streamHeaders written_map_Write)
  qed
qed

text \<open>
  The theorem of C10 on a chunk without choices, a chunk without content and a chunk
  with empty content, and on a stream in which only the last chunk carries text.
\<close>

theorem relay_skips_empty_witness:
  "token \<lparr>choices = []\<rparr> = None \<and>
   forAwait (\<lparr>choices = []\<rparr> # [textChunk None, textChunk (Some [])]) freshIO = freshIO \<and>
   written (res (chatStreamHandler
     (Inr ([\<lparr>choices = []\<rparr>, textChunk None, textChunk (Some []), textChunk (Some ''Hi'')], None))
     freshIO)) = [''Hi'']"
  using relay_skips_empty[of "\<lparr>choices = []\<rparr>" "[textChunk None, textChunk (Some [])]" freshIO
      "Inr ([\<lparr>choices = []\<rparr>, textChunk None, textChunk (Some []), textChunk (Some ''Hi'')], None)"]
  by (simp add: token_def textChunk_def truthy_def handler_log written_append
      written_streamHeaders written_map_Write chunkText_def)

end
